theory Spec2Isabelle
  imports Complex_Main
begin

section \<open>The configuration model (config.py)\<close>

text \<open>
  The pydantic models of config.py, one record per class, with the declared fields and
  no others. An \<open>Optional\<close> field is an \<open>option\<close>. Two field names occur in two
  classes; the later record spells them \<open>target_headers\<close> (\<open>Target.headers\<close>) and
  \<open>server_debug\<close> (\<open>ServerConfig.debug\<close>), and \<open>FailureCondition.method\<close> is
  spelt \<open>method_name\<close>. A \<open>float\<close> is read as the real number it
  denotes (the code only tests it for zero and compares it), a \<open>Dict[str, Any]\<close> body as
  an association list of JSON values.
\<close>

datatype json =
    JNull
  | JBool bool
  | JInt int
  | JFloat real
  | JStr string
  | JList "json list"
  | JDict "(string \<times> json) list"

record FailureCondition =
  method_name :: "string option"
  count :: "int option"
  every :: "int option"
  probability :: "real option"
  delay :: "int option"

record FailureResponse =
  status_code :: int
  body :: "(string \<times> json) list option"
  headers :: "(string \<times> string) list option"

record FailureRule =
  condition :: FailureCondition
  response :: FailureResponse

record Endpoint =
  path :: string
  methods :: "string list"
  debug :: bool
  failure_rules :: "FailureRule list"

record Target =
  url :: string
  target_headers :: "(string \<times> string) list option"
  endpoints :: "Endpoint list"

record ServerConfig =
  host :: string
  port :: int
  server_debug :: bool

record LoggingConfig =
  level :: string
  format :: string

record ProxyConfig =
  server :: ServerConfig
  logging :: LoggingConfig
  targets :: "(string \<times> Target) list"

section \<open>Python values, exceptions and attribute access\<close>

text \<open>
  Every exception the modelled code can raise is a value. \<open>HTTPException\<close> carries
  its status code and detail, \<open>RequestError\<close> and \<open>LoadError\<close> their message.
  \<open>LoadError\<close> stands for whatever \<open>load_config\<close> raises (a missing file, a YAML
  error, a validation error), \<open>LevelError\<close> for what resolving or setting a log level
  raises. \<open>RegexOutsideFragment\<close> is not a Python exception: the model of \<open>re.match\<close>
  below answers it on a pattern it does not cover.
\<close>

datatype error =
    AttributeError
  | ValueError
  | HTTPException int string
  | RequestError string
  | LoadError string
  | LevelError
  | RegexOutsideFragment

text \<open>The objects an attribute of a configuration object can hold.\<close>

datatype pyobj =
    PyNone
  | PyBool bool
  | PyInt int
  | PyFloat real
  | PyStr string
  | PyServerConfig ServerConfig
  | PyLoggingConfig LoggingConfig
  | PyTargets "(string \<times> Target) list"
  | PyTarget Target

text \<open>Python's truth value of an object, as \<open>if x\<close> and \<open>not x\<close> test it.\<close>

fun truthy :: "pyobj \<Rightarrow> bool" where
  "truthy PyNone = False"
| "truthy (PyBool b) = b"
| "truthy (PyInt i) = (i \<noteq> 0)"
| "truthy (PyFloat x) = (x \<noteq> 0)"
| "truthy (PyStr s) = (s \<noteq> [])"
| "truthy (PyTargets d) = (d \<noteq> [])"
| "truthy (PyServerConfig c) = True"
| "truthy (PyLoggingConfig c) = True"
| "truthy (PyTarget t) = True"

definition opt_str :: "string option \<Rightarrow> pyobj" where
  "opt_str v = (case v of None \<Rightarrow> PyNone | Some s \<Rightarrow> PyStr s)"

definition opt_int :: "int option \<Rightarrow> pyobj" where
  "opt_int v = (case v of None \<Rightarrow> PyNone | Some i \<Rightarrow> PyInt i)"

definition opt_float :: "real option \<Rightarrow> pyobj" where
  "opt_float v = (case v of None \<Rightarrow> PyNone | Some x \<Rightarrow> PyFloat x)"

text \<open>
  Attribute access by name on a \<open>FailureCondition\<close> (config.py, lines 8 to 13): the
  five declared fields answer, any other name raises \<open>AttributeError\<close>. The class sets
  no model configuration, so a key of the YAML file it does not declare is not stored.
\<close>

definition getattr_FailureCondition :: "FailureCondition \<Rightarrow> string \<Rightarrow> error + pyobj" where
  "getattr_FailureCondition c name =
     (if name = ''method'' then Inr (opt_str (method_name c))
      else if name = ''count'' then Inr (opt_int (count c))
      else if name = ''every'' then Inr (opt_int (every c))
      else if name = ''probability'' then Inr (opt_float (probability c))
      else if name = ''delay'' then Inr (opt_int (delay c))
      else Inl AttributeError)"

text \<open>Attribute access by name on a \<open>ProxyConfig\<close> (config.py, lines 51 to 54).\<close>

definition getattr_ProxyConfig :: "ProxyConfig \<Rightarrow> string \<Rightarrow> error + pyobj" where
  "getattr_ProxyConfig cfg name =
     (if name = ''server'' then Inr (PyServerConfig (server cfg))
      else if name = ''logging'' then Inr (PyLoggingConfig (logging cfg))
      else if name = ''targets'' then Inr (PyTargets (targets cfg))
      else Inl AttributeError)"

text \<open>
  The code reads \<open>endpoints\<close>, \<open>url\<close> and \<open>headers\<close> on the object it got as
  \<open>config.target\<close>: only a \<open>Target\<close> has them.
\<close>

definition as_Target :: "pyobj \<Rightarrow> error + Target" where
  "as_Target obj = (case obj of PyTarget t \<Rightarrow> Inr t | _ \<Rightarrow> Inl AttributeError)"

text \<open>
  \<open>str.upper\<close> on the ASCII letters; every other character is kept. HTTP method names
  are ASCII tokens.
\<close>

definition upper_char :: "char \<Rightarrow> char" where
  "upper_char c =
     (case map_of (zip ''abcdefghijklmnopqrstuvwxyz'' ''ABCDEFGHIJKLMNOPQRSTUVWXYZ'') c of
        None \<Rightarrow> c
      | Some u \<Rightarrow> u)"

definition upper :: "string \<Rightarrow> string" where
  "upper s = map upper_char s"

section \<open>The failure injector (main.py, lines 33 to 65)\<close>

text \<open>
  \<open>request_counts\<close> is a \<open>defaultdict(int)\<close>: a total function from keys to
  integers that is 0 where nothing was stored.
\<close>

type_synonym counts = "string \<Rightarrow> int"

text \<open>What a request does besides answering: logger calls, sleeps, outbound calls.\<close>

datatype log_level = INFO | WARNING | ERROR

record outbound_request =
  out_method :: string
  out_url :: string
  out_headers :: "string \<rightharpoonup> string"
  out_content :: string
  out_params :: "(string \<times> string) list"

datatype event =
    Log log_level string
  | Sleep int
  | BackendCall outbound_request

definition counter_key :: "string \<Rightarrow> string \<Rightarrow> string" where
  "counter_key meth pth = meth @ '':'' @ pth"

text \<open>
  Lines 44 to 65 of \<open>should_inject_failure\<close>: the method constraint, the increment of
  the shared counter, then \<open>count\<close>, \<open>every\<close>, \<open>probability\<close> and \<open>delay\<close>. Each
  \<open>if condition.x\<close> tests the truth value of the field, so \<open>None\<close>, 0, 0.0 and the empty
  string all skip the check. \<open>r\<close> is the value \<open>random.random()\<close> returns if it is
  called. \<open>time.sleep\<close> raises \<open>ValueError\<close> on a negative duration.
\<close>

definition inject_checks ::
  "counts \<Rightarrow> real \<Rightarrow> FailureCondition \<Rightarrow> string \<Rightarrow> string \<Rightarrow> (error + bool) \<times> counts \<times> event list"
where
  "inject_checks rc r c meth pth =
     (if (case method_name c of None \<Rightarrow> False | Some m \<Rightarrow> m \<noteq> [] \<and> upper m \<noteq> upper meth)
      then (Inr False, rc, [])
      else
        let key = counter_key meth pth;
            rc' = rc(key := rc key + 1);
            n = rc' key
        in
          if (case count c of None \<Rightarrow> False | Some k \<Rightarrow> k \<noteq> 0 \<and> n \<noteq> k)
          then (Inr False, rc', [])
          else if (case every c of None \<Rightarrow> False | Some k \<Rightarrow> k \<noteq> 0 \<and> n mod k \<noteq> 0)
          then (Inr False, rc', [])
          else if (case probability c of None \<Rightarrow> False | Some p \<Rightarrow> p \<noteq> 0 \<and> r > p)
          then (Inr False, rc', [])
          else
            (case delay c of
               None \<Rightarrow> (Inr True, rc', [])
             | Some d \<Rightarrow>
                 if d = 0 then (Inr True, rc', [])
                 else if d < 0 then (Inl ValueError, rc', [])
                 else (Inr True, rc', [Sleep d])))"

text \<open>
  \<open>should_inject_failure\<close> (lines 37 to 65): line 41 reads \<open>condition.enabled\<close> before
  anything else.
\<close>

definition should_inject_failure ::
  "counts \<Rightarrow> real \<Rightarrow> FailureRule \<Rightarrow> string \<Rightarrow> string \<Rightarrow> (error + bool) \<times> counts \<times> event list"
where
  "should_inject_failure rc r rule meth pth =
     (case getattr_FailureCondition (condition rule) ''enabled'' of
        Inl e \<Rightarrow> (Inl e, rc, [])
      | Inr enabled \<Rightarrow>
          if \<not> truthy enabled then (Inr False, rc, [])
          else inject_checks rc r (condition rule) meth pth)"

section \<open>The endpoint matcher (main.py, lines 120 to 142)\<close>

text \<open>
  \<open>re.match\<close> belongs to Python's library. The model covers the patterns built from
  ordinary characters, \<open>.\<close> (any character but a newline), \<open>.*\<close> (any run of them),
  \<open>^\<close> (the start of the string) and \<open>$\<close> (the end of the string, or just before a
  newline that ends it). On any other special character of the regular expression
  syntax it answers \<open>RegexOutsideFragment\<close>. \<open>re.match\<close> matches at the start of the
  string and need not consume all of it.
\<close>

datatype rx = RLit char | RAny | RAnyStar | RBol | REol

definition newline :: char where
  "newline = CHR 0x0A"

definition regex_special :: "char list" where
  "regex_special =
     [CHR 0x5C, CHR ''*'', CHR ''+'', CHR ''?'', CHR ''{'', CHR ''}'',
      CHR ''['', CHR '']'', CHR ''|'', CHR ''('', CHR '')'']"

fun rx_parse :: "string \<Rightarrow> rx list option" where
  "rx_parse [] = Some []"
| "rx_parse (c # cs) =
     (if c = CHR ''.'' then
        (case cs of
           [] \<Rightarrow> Some [RAny]
         | d # ds \<Rightarrow>
             if d = CHR ''*'' then map_option (Cons RAnyStar) (rx_parse ds)
             else map_option (Cons RAny) (rx_parse cs))
      else if c = CHR ''^'' then map_option (Cons RBol) (rx_parse cs)
      else if c = CHR ''$'' then map_option (Cons REol) (rx_parse cs)
      else if c \<in> set regex_special then None
      else map_option (Cons (RLit c)) (rx_parse cs))"

text \<open>
  \<open>rx_match items s at_start\<close>: some prefix of \<open>s\<close> matches \<open>items\<close>, where
  \<open>at_start\<close> says that \<open>s\<close> is the whole subject string. A backtracking matcher finds
  a match whenever one exists.
\<close>

fun rx_match :: "rx list \<Rightarrow> string \<Rightarrow> bool \<Rightarrow> bool" where
  "rx_match [] s at_start = True"
| "rx_match (RLit c # items) s at_start =
     (case s of [] \<Rightarrow> False | x # xs \<Rightarrow> x = c \<and> rx_match items xs False)"
| "rx_match (RAny # items) s at_start =
     (case s of [] \<Rightarrow> False | x # xs \<Rightarrow> x \<noteq> newline \<and> rx_match items xs False)"
| "rx_match (RAnyStar # items) s at_start =
     (rx_match items s at_start \<or>
      (case s of [] \<Rightarrow> False | x # xs \<Rightarrow> x \<noteq> newline \<and> rx_match (RAnyStar # items) xs False))"
| "rx_match (RBol # items) s at_start = (at_start \<and> rx_match items s at_start)"
| "rx_match (REol # items) s at_start = ((s = [] \<or> s = [newline]) \<and> rx_match items s at_start)"

definition re_match :: "string \<Rightarrow> string \<Rightarrow> error + bool" where
  "re_match pat s =
     (case rx_parse pat of
        None \<Rightarrow> Inl RegexOutsideFragment
      | Some items \<Rightarrow> Inr (rx_match items s True))"

text \<open>\<open>pattern.replace("*", ".*")\<close>.\<close>

definition replace_star :: "string \<Rightarrow> string" where
  "replace_star pattern = concat (map (\<lambda>c. if c = CHR ''*'' then ''.*'' else [c]) pattern)"

text \<open>\<open>_path_matches\<close> (lines 129 to 137).\<close>

definition path_matches :: "string \<Rightarrow> string \<Rightarrow> error + bool" where
  "path_matches pattern pth =
     (if pattern = ''/*'' then Inr True
      else if CHR ''*'' \<in> set pattern then re_match (''^'' @ replace_star pattern @ ''$'') pth
      else Inr (pattern = pth))"

text \<open>\<open>_method_matches\<close> (lines 139 to 142).\<close>

definition method_matches :: "string list \<Rightarrow> string \<Rightarrow> bool" where
  "method_matches allowed_methods meth =
     (''*'' \<in> set allowed_methods \<or> upper meth \<in> set (map upper allowed_methods))"

text \<open>
  The loop of \<open>_find_matching_endpoint\<close> (lines 122 to 127) over a list of endpoints:
  the first endpoint whose path and methods match, \<open>None\<close> when the list is exhausted.
  \<open>and\<close> evaluates \<open>_method_matches\<close> only when \<open>_path_matches\<close> is true.
\<close>

fun find_endpoint :: "Endpoint list \<Rightarrow> string \<Rightarrow> string \<Rightarrow> error + Endpoint option" where
  "find_endpoint [] pth meth = Inr None"
| "find_endpoint (e # es) pth meth =
     (case path_matches (path e) pth of
        Inl err \<Rightarrow> Inl err
      | Inr pm \<Rightarrow>
          if pm \<and> method_matches (methods e) meth then Inr (Some e)
          else find_endpoint es pth meth)"

text \<open>
  \<open>_find_matching_endpoint\<close> (lines 120 to 127): the list it iterates is
  \<open>self.config.target.endpoints\<close>.
\<close>

definition find_matching_endpoint :: "ProxyConfig \<Rightarrow> string \<Rightarrow> string \<Rightarrow> error + Endpoint option" where
  "find_matching_endpoint cfg pth meth =
     (case getattr_ProxyConfig cfg ''target'' of
        Inl e \<Rightarrow> Inl e
      | Inr obj \<Rightarrow>
          (case as_Target obj of
             Inl e \<Rightarrow> Inl e
           | Inr t \<Rightarrow> find_endpoint (endpoints t) pth meth))"

text \<open>
  The reading of the glob in the words of the specification, for comparison: each \<open>*\<close>
  of the pattern stands for an arbitrary sequence of characters, every other character
  for itself, and the whole path must be used up.
\<close>

fun glob_spec :: "string \<Rightarrow> string \<Rightarrow> bool" where
  "glob_spec [] s = (s = [])"
| "glob_spec (p # ps) s =
     (if p = CHR ''*'' then
        (glob_spec ps s \<or> (case s of [] \<Rightarrow> False | x # xs \<Rightarrow> glob_spec (p # ps) xs))
      else (case s of [] \<Rightarrow> False | x # xs \<Rightarrow> x = p \<and> glob_spec ps xs))"

section \<open>The proxy server (main.py, lines 68 to 267)\<close>

text \<open>
  The server object: the active configuration, the path it is reloaded from, the
  injector's counters and the level of its logger. The lock only serialises the
  accesses; each operation below is one uninterrupted run.
\<close>

record ProxyServer =
  config :: ProxyConfig
  config_path :: string
  request_counts :: counts
  logger_level :: int

text \<open>The inbound request as the handler reads it, and the backend's answer.\<close>

record Request =
  req_method :: string
  req_headers :: "(string \<times> string) list"
  req_query_params :: "(string \<times> string) list"
  req_body :: string

record backend_response =
  resp_status_code :: int
  resp_headers :: "(string \<times> string) list"
  resp_content :: string

datatype http_response =
    JSONResponse int "(string \<times> json) list" "(string \<times> string) list"
  | Response string int "string \<rightharpoonup> string" "string option"

text \<open>
  The loop over the endpoint's rules (lines 185 to 194): the first rule for which
  \<open>should_inject_failure\<close> answers true ends it. \<open>rnd i\<close> is the value
  \<open>random.random()\<close> returns if the evaluation of the rule at position \<open>i\<close> calls it.
  A logger call is one event with its level and the fixed start of its message.
\<close>

fun inject_loop ::
  "counts \<Rightarrow> (nat \<Rightarrow> real) \<Rightarrow> nat \<Rightarrow> FailureRule list \<Rightarrow> string \<Rightarrow> string
     \<Rightarrow> (error + FailureRule option) \<times> counts \<times> event list"
where
  "inject_loop rc rnd i [] meth pth = (Inr None, rc, [])"
| "inject_loop rc rnd i (rule # rules) meth pth =
     (case should_inject_failure rc (rnd i) rule meth pth of
        (Inl e, rc', evs) \<Rightarrow> (Inl e, rc', evs)
      | (Inr fired, rc', evs) \<Rightarrow>
          if fired then (Inr (Some rule), rc', evs @ [Log WARNING ''[proxy] Injecting failure''])
          else
            (case inject_loop rc' rnd (Suc i) rules meth pth of
               (res, rc'', evs') \<Rightarrow> (res, rc'', evs @ evs')))"

text \<open>\<open>target.url.rstrip('/')\<close>.\<close>

definition rstrip_slash :: "string \<Rightarrow> string" where
  "rstrip_slash s = rev (dropWhile (\<lambda>c. c = CHR ''/'') (rev s))"

definition inbound_debug_log :: "event list" where
  "inbound_debug_log =
     [Log INFO ''[proxy] request'', Log INFO ''[proxy] Request headers'',
      Log INFO ''[proxy] Request body'']"

text \<open>
  Lines 158 to 181: with \<open>endpoint.debug\<close> the first message reads \<open>target.url\<close>
  before anything is logged.
\<close>

definition inbound_debug :: "pyobj \<Rightarrow> Endpoint \<Rightarrow> error + event list" where
  "inbound_debug obj endpoint =
     (if debug endpoint then
        (case as_Target obj of Inl e \<Rightarrow> Inl e | Inr target \<Rightarrow> Inr inbound_debug_log)
      else Inr [])"

definition outbound_debug_log :: "Request \<Rightarrow> event list" where
  "outbound_debug_log request =
     [Log INFO ''[proxy] Sending to backend'', Log INFO ''[proxy] Final request headers''] @
     (if req_query_params request \<noteq> [] then [Log INFO ''[proxy] Query parameters''] else [])"

definition response_debug_log :: "backend_response \<Rightarrow> event list" where
  "response_debug_log resp =
     [Log INFO ''[proxy] Response'', Log INFO ''[proxy] Response headers''] @
     (if resp_content resp \<noteq> [] then [Log INFO ''[proxy] Response body''] else [])"

text \<open>
  Lines 196 to 267: the outbound request, the call of the backend and the relayed
  response. \<open>backend\<close> is the answer of \<open>httpx\<close>: a response or the exception raised;
  only \<open>RequestError\<close> is caught and turned into the 502.
\<close>

definition forward ::
  "(outbound_request \<Rightarrow> error + backend_response) \<Rightarrow> Target \<Rightarrow> Endpoint \<Rightarrow> Request \<Rightarrow> string
     \<Rightarrow> (error + http_response) \<times> event list"
where
  "forward backend target endpoint request pth =
     (let hdrs = map_of (req_headers request);
          hdrs1 = (case target_headers target of
                     None \<Rightarrow> hdrs
                   | Some th \<Rightarrow> if th = [] then hdrs else hdrs ++ map_of th);
          hdrs2 = hdrs1(''host'' := None);
          out = \<lparr>out_method = req_method request,
                 out_url = rstrip_slash (url target) @ pth,
                 out_headers = hdrs2,
                 out_content = req_body request,
                 out_params = req_query_params request\<rparr>;
          evs = (if debug endpoint then outbound_debug_log request else []) @ [BackendCall out]
      in
        (case backend out of
           Inl (RequestError msg) \<Rightarrow>
             (Inl (HTTPException 502 (''Bad Gateway: '' @ msg)),
              evs @ [Log ERROR ''[proxy] Request failed''])
         | Inl e \<Rightarrow> (Inl e, evs)
         | Inr resp \<Rightarrow>
             (let rh = map_of (resp_headers resp);
                  rh' = rh(''content-encoding'' := None, ''transfer-encoding'' := None,
                           ''content-length'' := None)
              in (Inr (Response (resp_content resp) (resp_status_code resp) rh' (rh ''content-type'')),
                  evs @ (if debug endpoint then response_debug_log resp else [])))))"

text \<open>
  \<open>_handle_request\<close> (lines 144 to 267). Line 148 resolves the endpoint, line 149
  reads \<open>self.config.target\<close>, line 152 raises the 404; then the inbound debug log, the
  rules, and the forwarding. The result is the response or the exception raised, the
  server with its counters as the request left them, and the events in order.
\<close>

definition handle_request ::
  "(outbound_request \<Rightarrow> error + backend_response) \<Rightarrow> (nat \<Rightarrow> real) \<Rightarrow> ProxyServer \<Rightarrow> Request
     \<Rightarrow> string \<Rightarrow> (error + http_response) \<times> ProxyServer \<times> event list"
where
  "handle_request backend rnd srv request full_path =
     (let pth = ''/'' @ full_path; meth = req_method request in
      case find_matching_endpoint (config srv) pth meth of
        Inl e \<Rightarrow> (Inl e, srv, [])
      | Inr found \<Rightarrow>
          (case getattr_ProxyConfig (config srv) ''target'' of
             Inl e \<Rightarrow> (Inl e, srv, [])
           | Inr obj \<Rightarrow>
               (case found of
                  None \<Rightarrow> (Inl (HTTPException 404 ''No matching endpoint found''), srv, [])
                | Some endpoint \<Rightarrow>
                    (case inbound_debug obj endpoint of
                       Inl e \<Rightarrow> (Inl e, srv, [])
                     | Inr evs0 \<Rightarrow>
                         (case inject_loop (request_counts srv) rnd 0 (failure_rules endpoint) meth pth of
                            (Inl e, rc, evs) \<Rightarrow> (Inl e, srv\<lparr>request_counts := rc\<rparr>, evs0 @ evs)
                          | (Inr (Some rule), rc, evs) \<Rightarrow>
                              (Inr (JSONResponse (status_code (response rule))
                                     (case body (response rule) of None \<Rightarrow> [] | Some b \<Rightarrow> b)
                                     (case headers (response rule) of None \<Rightarrow> [] | Some h \<Rightarrow> h)),
                               srv\<lparr>request_counts := rc\<rparr>, evs0 @ evs)
                          | (Inr None, rc, evs) \<Rightarrow>
                              (case as_Target obj of
                                 Inl e \<Rightarrow> (Inl e, srv\<lparr>request_counts := rc\<rparr>, evs0 @ evs)
                               | Inr target \<Rightarrow>
                                   (case forward backend target endpoint request pth of
                                      (res, evs') \<Rightarrow>
                                        (res, srv\<lparr>request_counts := rc\<rparr>, evs0 @ evs @ evs'))))))))"

text \<open>
  \<open>reload_config\<close> (lines 99 to 110). \<open>load_config\<close> reads the file, parses the YAML,
  expands the environment variables and validates the result; \<open>load\<close> is its outcome for
  a path at the time of the call, the configuration or the exception. \<open>level_of\<close> is
  the outcome of \<open>getattr(logging, name)\<close> followed by \<open>setLevel\<close>: the numeric level,
  or the exception. The \<open>except Exception\<close> clause catches whatever the body raises.
\<close>

definition reload_config ::
  "(string \<Rightarrow> error + ProxyConfig) \<Rightarrow> (string \<Rightarrow> error + int) \<Rightarrow> ProxyServer
     \<Rightarrow> (error + unit) \<times> ProxyServer \<times> event list"
where
  "reload_config load level_of srv =
     (case load (config_path srv) of
        Inl e \<Rightarrow> (Inr (), srv, [Log ERROR ''Failed to reload configuration''])
      | Inr new_config \<Rightarrow>
          (let srv' = srv\<lparr>config := new_config\<rparr>;
               evs = [Log INFO ''Configuration reloaded successfully'']
           in case level_of (level (logging new_config)) of
                Inl e \<Rightarrow> (Inr (), srv', evs @ [Log ERROR ''Failed to reload configuration''])
              | Inr lv \<Rightarrow> (Inr (), srv'\<lparr>logger_level := lv\<rparr>, evs)))"

section \<open>Auxiliary predicates and example inputs\<close>

text \<open>
  The method constraint of a condition as line 44 tests it: an unset or empty method
  constrains nothing.
\<close>

definition method_ok :: "FailureCondition \<Rightarrow> string \<Rightarrow> bool" where
  "method_ok c meth = (case method_name c of None \<Rightarrow> True | Some m \<Rightarrow> m = [] \<or> upper m = upper meth)"

text \<open>An endpoint qualifies for a request: the test of line 123.\<close>

definition endpoint_matches :: "Endpoint \<Rightarrow> string \<Rightarrow> string \<Rightarrow> bool" where
  "endpoint_matches e pth meth =
     (path_matches (path e) pth = Inr True \<and> method_matches (methods e) meth)"

text \<open>
  A pattern is plain when each character is \<open>*\<close> or a character without meaning in
  a regular expression.
\<close>

definition plain_char :: "char \<Rightarrow> bool" where
  "plain_char c =
     (c \<notin> set regex_special \<and> c \<noteq> CHR ''.'' \<and> c \<noteq> CHR ''^'' \<and> c \<noteq> CHR ''$'')"

definition plain_pattern :: "string \<Rightarrow> bool" where
  "plain_pattern pattern = list_all (\<lambda>c. c = CHR ''*'' \<or> plain_char c) pattern"

definition rx_of_glob :: "char \<Rightarrow> rx" where
  "rx_of_glob c = (if c = CHR ''*'' then RAnyStar else RLit c)"

text \<open>
  A configuration as \<open>load_config\<close> builds it: one named target with the endpoints
  \<open>/echo\<close> (GET, no rules) and \<open>/fail\<close> (any method, one rule with \<open>count\<close> 2), and
  some rules.
\<close>

definition rule_count3 :: FailureRule where
  "rule_count3 =
     \<lparr>condition = \<lparr>method_name = None, count = Some 3, every = None, probability = None, delay = None\<rparr>,
      response = \<lparr>status_code = 503, body = None, headers = None\<rparr>\<rparr>"

definition rule_every2 :: FailureRule where
  "rule_every2 =
     \<lparr>condition = \<lparr>method_name = None, count = None, every = Some 2, probability = None, delay = None\<rparr>,
      response = \<lparr>status_code = 503, body = None, headers = None\<rparr>\<rparr>"

definition rule_plain :: FailureRule where
  "rule_plain =
     \<lparr>condition = \<lparr>method_name = None, count = None, every = None, probability = None, delay = None\<rparr>,
      response = \<lparr>status_code = 500, body = None, headers = None\<rparr>\<rparr>"

definition rule_probability0 :: FailureRule where
  "rule_probability0 =
     \<lparr>condition = \<lparr>method_name = None, count = None, every = None, probability = Some 0, delay = None\<rparr>,
      response = \<lparr>status_code = 500, body = None, headers = None\<rparr>\<rparr>"

definition rule_probability1 :: FailureRule where
  "rule_probability1 =
     \<lparr>condition = \<lparr>method_name = None, count = None, every = None, probability = Some 1, delay = None\<rparr>,
      response = \<lparr>status_code = 500, body = None, headers = None\<rparr>\<rparr>"

definition rule_count2 :: FailureRule where
  "rule_count2 =
     \<lparr>condition = \<lparr>method_name = None, count = Some 2, every = None, probability = None, delay = None\<rparr>,
      response = \<lparr>status_code = 500, body = Some [(''error'', JStr ''boom'')], headers = None\<rparr>\<rparr>"

definition echo_endpoint :: Endpoint where
  "echo_endpoint = \<lparr>path = ''/echo'', methods = [''GET''], debug = False, failure_rules = []\<rparr>"

definition fail_endpoint :: Endpoint where
  "fail_endpoint =
     \<lparr>path = ''/fail'', methods = [''*''], debug = False, failure_rules = [rule_count2]\<rparr>"

definition example_target :: Target where
  "example_target =
     \<lparr>url = ''http://backend:9000'', target_headers = None,
      endpoints = [echo_endpoint, fail_endpoint]\<rparr>"

definition example_config :: ProxyConfig where
  "example_config =
     \<lparr>server = \<lparr>host = ''0.0.0.0'', port = 8000, server_debug = False\<rparr>,
      logging = \<lparr>level = ''INFO'', format = ''%(message)s''\<rparr>,
      targets = [(''backend'', example_target)]\<rparr>"

definition other_config :: ProxyConfig where
  "other_config =
     \<lparr>server = \<lparr>host = ''127.0.0.1'', port = 9001, server_debug = True\<rparr>,
      logging = \<lparr>level = ''DEBUG'', format = ''%(message)s''\<rparr>,
      targets = []\<rparr>"

definition example_server :: ProxyServer where
  "example_server =
     \<lparr>config = example_config, config_path = ''config.yaml'',
      request_counts = (\<lambda>k. 0), logger_level = 20\<rparr>"

definition get_request :: Request where
  "get_request = \<lparr>req_method = ''GET'', req_headers = [], req_query_params = [], req_body = []\<rparr>"

text \<open>The backend of the examples answers 200 with an empty body.\<close>

definition ok_backend :: "outbound_request \<Rightarrow> error + backend_response" where
  "ok_backend out = Inr \<lparr>resp_status_code = 200, resp_headers = [], resp_content = []\<rparr>"

section \<open>Attribute reads on the configuration objects\<close>

text \<open>
  Neither \<open>enabled\<close> nor \<open>target\<close> is a declared field, so both reads raise; a
  declared field answers.
\<close>

lemma getattr_enabled_raises: "getattr_FailureCondition c ''enabled'' = Inl AttributeError"
  by (simp add: getattr_FailureCondition_def)

lemma getattr_target_raises: "getattr_ProxyConfig cfg ''target'' = Inl AttributeError"
  by (simp add: getattr_ProxyConfig_def)

lemma getattr_declared:
  "getattr_FailureCondition c ''count'' = Inr (opt_int (count c))"
  "getattr_ProxyConfig cfg ''targets'' = Inr (PyTargets (targets cfg))"
  by (simp_all add: getattr_FailureCondition_def getattr_ProxyConfig_def)

text \<open>
  C10. Whatever the rule, the method, the path, the counters and the random draw,
  \<open>should_inject_failure\<close> raises \<open>AttributeError\<close> at its read of \<open>condition.enabled\<close>:
  it never answers true, it leaves every counter as it was, and it neither sleeps nor
  logs.
\<close>

theorem should_inject_failure_raises:
  "should_inject_failure rc r rule meth pth = (Inl AttributeError, rc, [])"
  by (simp add: should_inject_failure_def getattr_FailureCondition_def)

text \<open>
  C9. Whatever the configuration and the request, endpoint resolution raises
  \<open>AttributeError\<close> at its read of \<open>self.config.target\<close>, and so does the handler: no
  endpoint is matched, no counter changes, nothing is logged and the backend is not
  called.
\<close>

theorem handle_request_raises:
  "find_matching_endpoint cfg pth meth = Inl AttributeError \<and>
   handle_request backend rnd srv request full_path = (Inl AttributeError, srv, [])"
  by (simp add: handle_request_def find_matching_endpoint_def getattr_target_raises)

section \<open>Lines 44 to 65 of the injector, taken alone\<close>

text \<open>
  What the checks after the read of \<open>enabled\<close> compute: a rule whose method constraint
  fails leaves the counter alone, any other evaluation increments it once, and
  \<open>count\<close> and \<open>every\<close> are tested against the incremented value. A probability of 0
  is skipped like an unset one, and a probability of 1 never vetoes a draw below 1.
\<close>

lemma inject_checks_method_mismatch:
  "\<not> method_ok c meth \<Longrightarrow> inject_checks rc r c meth pth = (Inr False, rc, [])"
  by (auto simp add: inject_checks_def method_ok_def split: option.splits)

lemma inject_checks_increments:
  "method_ok c meth \<Longrightarrow>
   fst (snd (inject_checks rc r c meth pth)) =
     rc(counter_key meth pth := rc (counter_key meth pth) + 1)"
  by (auto simp add: inject_checks_def method_ok_def Let_def split: option.splits)

lemma inject_checks_count_every:
  assumes "method_ok c meth" and "probability c = None" and "delay c = None"
  shows "fst (inject_checks rc r c meth pth) =
     Inr ((case count c of None \<Rightarrow> True | Some k \<Rightarrow> k = 0 \<or> rc (counter_key meth pth) + 1 = k) \<and>
          (case every c of None \<Rightarrow> True
           | Some k \<Rightarrow> k = 0 \<or> (rc (counter_key meth pth) + 1) mod k = 0))"
  using assms by (auto simp add: inject_checks_def method_ok_def Let_def split: option.splits)

lemma inject_checks_probability_zero:
  "probability c = Some 0 \<Longrightarrow>
   inject_checks rc r c meth pth = inject_checks rc r (c\<lparr>probability := None\<rparr>) meth pth"
  by (simp add: inject_checks_def Let_def)

lemma inject_checks_probability_one:
  "probability c = Some 1 \<Longrightarrow> r < 1 \<Longrightarrow>
   inject_checks rc r c meth pth = inject_checks rc r (c\<lparr>probability := None\<rparr>) meth pth"
  by (simp add: inject_checks_def Let_def)

lemma inject_checks_probability0_fires:
  "fst (inject_checks (\<lambda>k. 0) (1/2) (condition rule_probability0) ''GET'' ''/x'') = Inr True"
  by (simp add: inject_checks_def rule_probability0_def)

text \<open>
  C1. The key \<open>GET:/x\<close> has been counted once and a rule with \<open>every\<close> 2 is
  evaluated for it: the call raises \<open>AttributeError\<close> and the counter stays at 1, where
  lines 44 to 65 alone answer true.
\<close>

theorem every2_second_call_raises:
  "should_inject_failure ((\<lambda>k. 0)(''GET:/x'' := 1)) r rule_every2 ''GET'' ''/x'' =
     (Inl AttributeError, (\<lambda>k. 0)(''GET:/x'' := 1), []) \<and>
   fst (inject_checks ((\<lambda>k. 0)(''GET:/x'' := 1)) r (condition rule_every2) ''GET'' ''/x'') =
     Inr True"
  by (simp add: should_inject_failure_def getattr_enabled_raises inject_checks_def
      rule_every2_def counter_key_def)

text \<open>
  C2. A rule without a method constraint is evaluated for \<open>GET /x\<close> on fresh counters:
  after the call the counter of \<open>GET:/x\<close> is still 0, where lines 44 to 65 alone leave
  it at 1.
\<close>

theorem counter_not_incremented:
  "fst (snd (should_inject_failure (\<lambda>k. 0) r rule_plain ''GET'' ''/x'')) ''GET:/x'' = 0 \<and>
   fst (snd (inject_checks (\<lambda>k. 0) r (condition rule_plain) ''GET'' ''/x'')) ''GET:/x'' = 1"
  by (simp add: should_inject_failure_def getattr_enabled_raises inject_checks_def
      rule_plain_def counter_key_def)

text \<open>
  C3. A rule with \<open>probability\<close> 1 and no other constraint is evaluated with the
  draw 1/2: the call raises \<open>AttributeError\<close>, where lines 44 to 65 alone answer true.
\<close>

theorem probability1_rule_raises:
  "fst (should_inject_failure (\<lambda>k. 0) (1/2) rule_probability1 ''GET'' ''/x'') =
     Inl AttributeError \<and>
   fst (inject_checks (\<lambda>k. 0) (1/2) (condition rule_probability1) ''GET'' ''/x'') = Inr True"
  by (simp add: should_inject_failure_def getattr_enabled_raises inject_checks_def
      rule_probability1_def)

section \<open>The loop over the endpoints, taken alone\<close>

text \<open>
  On a list of endpoints the loop answers the first one that qualifies and \<open>None\<close>
  only when none does.
\<close>

lemma method_matches_iff:
  "method_matches ms meth \<longleftrightarrow> ''*'' \<in> set ms \<or> (\<exists>m \<in> set ms. upper m = upper meth)"
  unfolding method_matches_def set_map image_iff by metis

lemma find_endpoint_Some:
  "find_endpoint es pth meth = Inr (Some e) \<Longrightarrow>
   \<exists>pre post. es = pre @ e # post \<and> endpoint_matches e pth meth \<and>
     (\<forall>x \<in> set pre. \<not> endpoint_matches x pth meth)"
proof (induction es)
  case Nil
  then show ?case by simp
next
  case (Cons a es)
  show ?case
  proof (cases "endpoint_matches a pth meth")
    case True
    with Cons.prems have "e = a"
      by (auto simp add: endpoint_matches_def)
    with True have "a # es = [] @ e # es \<and> endpoint_matches e pth meth" by simp
    then show ?thesis by fastforce
  next
    case False
    with Cons.prems have "find_endpoint es pth meth = Inr (Some e)"
      by (auto simp add: endpoint_matches_def split: sum.splits if_splits)
    from Cons.IH[OF this] obtain pre post where
      "es = pre @ e # post" "endpoint_matches e pth meth"
      "\<forall>x \<in> set pre. \<not> endpoint_matches x pth meth"
      by blast
    with False have "a # es = (a # pre) @ e # post \<and> endpoint_matches e pth meth \<and>
      (\<forall>x \<in> set (a # pre). \<not> endpoint_matches x pth meth)" by simp
    then show ?thesis by blast
  qed
qed

lemma find_endpoint_None:
  "find_endpoint es pth meth = Inr None \<Longrightarrow> \<forall>e \<in> set es. \<not> endpoint_matches e pth meth"
  by (induction es) (auto simp add: endpoint_matches_def split: sum.splits if_splits)

lemma find_endpoint_returns:
  "\<forall>e \<in> set es. \<exists>b. path_matches (path e) pth = Inr b \<Longrightarrow>
   \<exists>res. find_endpoint es pth meth = Inr res"
  by (induction es) (auto split: sum.splits)

text \<open>
  C4. The example configuration declares \<open>/echo\<close> for GET, and the loop over its
  endpoints finds it; \<open>_find_matching_endpoint\<close> on that configuration raises
  \<open>AttributeError\<close> instead of answering the endpoint.
\<close>

theorem find_matching_endpoint_echo_raises:
  "find_matching_endpoint example_config ''/echo'' ''GET'' = Inl AttributeError \<and>
   find_endpoint (endpoints example_target) ''/echo'' ''GET'' = Inr (Some echo_endpoint)"
  by (simp add: find_matching_endpoint_def getattr_target_raises example_target_def
      echo_endpoint_def path_matches_def method_matches_def upper_def upper_char_def)

section \<open>Path patterns\<close>

text \<open>
  \<open>/*\<close> matches every path, a pattern without \<open>*\<close> only itself, and on a plain
  pattern and a path without a newline \<open>_path_matches\<close> is the glob of the
  specification.
\<close>

lemma path_matches_slash_star: "path_matches ''/*'' pth = Inr True"
  by (simp add: path_matches_def)

lemma path_matches_no_star:
  "CHR ''*'' \<notin> set pattern \<Longrightarrow> path_matches pattern pth = Inr (pattern = pth)"
  by (auto simp add: path_matches_def)

lemma path_matches_api_examples:
  "path_matches ''/api/*'' ''/api/x'' = Inr True"
  "path_matches ''/api/*'' ''/api/x/y'' = Inr True"
  "path_matches ''/api/*'' ''/apiz'' = Inr False"
  by (simp_all add: path_matches_def replace_star_def re_match_def regex_special_def newline_def)

lemma replace_star_Cons:
  "replace_star (c # cs) = (if c = CHR ''*'' then ''.*'' else [c]) @ replace_star cs"
  by (simp add: replace_star_def)

lemma rx_parse_replace_star:
  "plain_pattern pattern \<Longrightarrow>
   rx_parse (replace_star pattern @ ''$'') = Some (map rx_of_glob pattern @ [REol])"
proof (induction pattern)
  case Nil
  then show ?case by (simp add: replace_star_def regex_special_def)
next
  case (Cons c cs)
  then have IH: "rx_parse (replace_star cs @ ''$'') = Some (map rx_of_glob cs @ [REol])"
    by (simp add: plain_pattern_def)
  show ?case
  proof (cases "c = CHR ''*''")
    case True
    have "rx_parse (replace_star (c # cs) @ ''$'') =
          map_option (Cons RAnyStar) (rx_parse (replace_star cs @ ''$''))"
      unfolding True replace_star_Cons by simp
    then show ?thesis using IH True by (simp add: rx_of_glob_def)
  next
    case False
    with Cons.prems have pc: "plain_char c" by (simp add: plain_pattern_def)
    have "rx_parse (replace_star (c # cs) @ ''$'') =
          map_option (Cons (RLit c)) (rx_parse (replace_star cs @ ''$''))"
      using pc False unfolding replace_star_Cons by (simp add: plain_char_def)
    then show ?thesis using IH False by (simp add: rx_of_glob_def)
  qed
qed

lemma rx_match_star_step:
  "rx_match (RAnyStar # items) (x # xs) b =
     (rx_match items (x # xs) b \<or> (x \<noteq> newline \<and> rx_match (RAnyStar # items) xs False))"
  by simp

lemma rx_match_glob:
  "newline \<notin> set s \<Longrightarrow> rx_match (map rx_of_glob pattern @ [REol]) s b = glob_spec pattern s"
proof (induction pattern s arbitrary: b rule: glob_spec.induct)
  case (1 s)
  then show ?case by auto
next
  case (2 p ps s)
  show ?case
  proof (cases "p = CHR ''*''")
    case True
    have IH1: "rx_match (map rx_of_glob ps @ [REol]) s b = glob_spec ps s"
      using "2.IH"(1)[OF True "2.prems"] .
    show ?thesis
    proof (cases s)
      case Nil
      have "rx_match (map rx_of_glob (p # ps) @ [REol]) [] b =
            rx_match (map rx_of_glob ps @ [REol]) [] b"
        using True by (simp add: rx_of_glob_def)
      with IH1 Nil True show ?thesis by simp
    next
      case (Cons x xs)
      from "2.prems" Cons have n: "x \<noteq> newline" and nxs: "newline \<notin> set xs" by auto
      have IH2: "rx_match (map rx_of_glob (p # ps) @ [REol]) xs False = glob_spec (p # ps) xs"
        using "2.IH"(2)[OF True Cons nxs] .
      have "rx_match (map rx_of_glob (p # ps) @ [REol]) (x # xs) b =
            (rx_match (map rx_of_glob ps @ [REol]) (x # xs) b \<or>
             rx_match (map rx_of_glob (p # ps) @ [REol]) xs False)"
        using True n by (simp add: rx_of_glob_def del: rx_match.simps add: rx_match_star_step)
      also have "\<dots> = (glob_spec ps (x # xs) \<or> glob_spec (p # ps) xs)"
        using IH1 IH2 Cons by simp
      also have "\<dots> = glob_spec (p # ps) (x # xs)"
        using True by simp
      finally show ?thesis using Cons by simp
    qed
  next
    case False
    show ?thesis
    proof (cases s)
      case Nil
      with False show ?thesis by (simp add: rx_of_glob_def)
    next
      case (Cons x xs)
      from "2.prems" Cons have nxs: "newline \<notin> set xs" by auto
      have IH3: "rx_match (map rx_of_glob ps @ [REol]) xs False = glob_spec ps xs"
        using "2.IH"(3)[OF False Cons nxs] .
      have "rx_match (map rx_of_glob (p # ps) @ [REol]) (x # xs) b =
            (x = p \<and> rx_match (map rx_of_glob ps @ [REol]) xs False)"
        using False by (simp add: rx_of_glob_def)
      with IH3 False Cons show ?thesis by simp
    qed
  qed
qed

lemma glob_spec_star_all: "glob_spec ''*'' s"
  by (induction s) simp_all

lemma glob_spec_no_star: "CHR ''*'' \<notin> set pattern \<Longrightarrow> glob_spec pattern s = (pattern = s)"
proof (induction pattern arbitrary: s)
  case Nil
  show ?case by auto
next
  case (Cons p ps)
  then have "p \<noteq> CHR ''*''" and IH: "\<And>t. glob_spec ps t = (ps = t)" by auto
  then show ?case by (cases s) auto
qed

lemma rx_parse_anchored:
  "rx_parse (''^'' @ rest) = map_option (Cons RBol) (rx_parse rest)"
  by (simp add: regex_special_def)

lemma re_match_plain:
  assumes "plain_pattern pattern" and "newline \<notin> set s"
  shows "re_match (''^'' @ replace_star pattern @ ''$'') s = Inr (glob_spec pattern s)"
proof -
  have "rx_parse (''^'' @ (replace_star pattern @ ''$'')) =
        Some (RBol # map rx_of_glob pattern @ [REol])"
    unfolding rx_parse_anchored rx_parse_replace_star[OF assms(1)] by simp
  then have "re_match (''^'' @ replace_star pattern @ ''$'') s =
        Inr (rx_match (RBol # map rx_of_glob pattern @ [REol]) s True)"
    unfolding re_match_def by simp
  also have "rx_match (RBol # map rx_of_glob pattern @ [REol]) s True =
        rx_match (map rx_of_glob pattern @ [REol]) s True"
    by simp
  also have "\<dots> = glob_spec pattern s"
    by (rule rx_match_glob[OF assms(2)])
  finally show ?thesis .
qed

lemma path_matches_plain:
  assumes "plain_pattern pattern" and "newline \<notin> set full_path"
  shows "path_matches pattern (''/'' @ full_path) = Inr (glob_spec pattern (''/'' @ full_path))"
proof -
  have nl: "newline \<notin> set (''/'' @ full_path)"
    using assms(2) by (simp add: newline_def)
  consider (all) "pattern = ''/*''"
    | (star) "pattern \<noteq> ''/*''" "CHR ''*'' \<in> set pattern"
    | (exact) "pattern \<noteq> ''/*''" "CHR ''*'' \<notin> set pattern"
    by blast
  then show ?thesis
  proof cases
    case all
    have "glob_spec ''/*'' (''/'' @ full_path) = glob_spec ''*'' full_path"
      by simp
    then have "glob_spec pattern (''/'' @ full_path)"
      unfolding all using glob_spec_star_all by simp
    moreover have "path_matches pattern (''/'' @ full_path) = Inr True"
      unfolding path_matches_def all by simp
    ultimately show ?thesis by simp
  next
    case star
    then have "path_matches pattern (''/'' @ full_path) =
        re_match (''^'' @ replace_star pattern @ ''$'') (''/'' @ full_path)"
      unfolding path_matches_def by simp
    then show ?thesis
      using re_match_plain[OF assms(1) nl] by simp
  next
    case exact
    then have "path_matches pattern (''/'' @ full_path) = Inr (pattern = ''/'' @ full_path)"
      unfolding path_matches_def by simp
    then show ?thesis
      using glob_spec_no_star[OF exact(2)] by simp
  qed
qed

text \<open>
  C5. The pattern \<open>/v1.0/*\<close> matches the path \<open>/v1x0/a\<close>, which no replacement of
  its \<open>*\<close> yields: the \<open>.\<close> of the pattern reaches the regular expression unescaped
  and stands for any character.
\<close>

theorem path_matches_dot_is_wildcard:
  "path_matches ''/v1.0/*'' ''/v1x0/a'' = Inr True \<and> \<not> glob_spec ''/v1.0/*'' ''/v1x0/a''"
  by (simp add: path_matches_def replace_star_def re_match_def regex_special_def newline_def)

section \<open>The request pipeline\<close>

text \<open>
  C6. The second \<open>GET /fail\<close> against the example configuration, whose rule has
  \<open>count\<close> 2: the handler raises \<open>AttributeError\<close> and returns no injected response.
\<close>

theorem fail_second_request_raises:
  "handle_request ok_backend rnd
     (example_server\<lparr>request_counts := (\<lambda>k. 0)(''GET:/fail'' := 1)\<rparr>) get_request ''fail'' =
     (Inl AttributeError, example_server\<lparr>request_counts := (\<lambda>k. 0)(''GET:/fail'' := 1)\<rparr>, [])"
  by (simp add: handle_request_def find_matching_endpoint_def getattr_target_raises)

text \<open>
  C7. \<open>GET /missing\<close> against the example configuration, none of whose endpoints
  qualifies: the handler raises \<open>AttributeError\<close>, not the 404; no counter changes
  and the backend is not called.
\<close>

theorem unconfigured_path_raises:
  "handle_request ok_backend rnd example_server get_request ''missing'' =
     (Inl AttributeError, example_server, []) \<and>
   find_endpoint (endpoints example_target) ''/missing'' ''GET'' = Inr None"
  by (simp add: handle_request_def find_matching_endpoint_def getattr_target_raises
      example_target_def echo_endpoint_def fail_endpoint_def path_matches_def)

section \<open>Reloading the configuration\<close>

text \<open>
  C8. When \<open>load_config\<close> raises, \<open>reload_config\<close> returns normally, the server is
  exactly as before (configuration, log level, counters) and one error record is logged.
  When \<open>load_config\<close> succeeds, \<open>reload_config\<close> returns normally and the active
  configuration is the new one, whatever becomes of the log level; the path and the
  counters are kept.
\<close>

theorem reload_config_outcome:
  "(\<forall>e. load (config_path srv) = Inl e \<longrightarrow>
      reload_config load level_of srv =
        (Inr (), srv, [Log ERROR ''Failed to reload configuration''])) \<and>
   (\<forall>new_config. load (config_path srv) = Inr new_config \<longrightarrow>
      fst (reload_config load level_of srv) = Inr () \<and>
      config (fst (snd (reload_config load level_of srv))) = new_config \<and>
      config_path (fst (snd (reload_config load level_of srv))) = config_path srv \<and>
      request_counts (fst (snd (reload_config load level_of srv))) = request_counts srv)"
  by (auto simp add: reload_config_def Let_def split: sum.splits)

text \<open>The two cases of C8 on the example server.\<close>

theorem reload_config_outcome_witness:
  "reload_config (\<lambda>p. Inl (LoadError ''invalid'')) (\<lambda>n. Inr 10) example_server =
     (Inr (), example_server, [Log ERROR ''Failed to reload configuration'']) \<and>
   fst (reload_config (\<lambda>p. Inr other_config) (\<lambda>n. Inr 10) example_server) = Inr () \<and>
   config (fst (snd (reload_config (\<lambda>p. Inr other_config) (\<lambda>n. Inr 10) example_server))) =
     other_config"
  using reload_config_outcome[where load = "\<lambda>p. Inl (LoadError ''invalid'')"
          and srv = example_server and level_of = "\<lambda>n. Inr 10"]
        reload_config_outcome[where load = "\<lambda>p. Inr other_config"
          and srv = example_server and level_of = "\<lambda>n. Inr 10"]
  by simp

end
